theory Spec2Isabelle
  imports Complex_Main "HOL-Library.Log_Nat"
begin

section \<open>QKart backend: the cart service\<close>

text \<open>
  A shallow embedding of the cart service (\<^verbatim>\<open>getCartByUser\<close>, \<^verbatim>\<open>addProductToCart\<close>,
  \<^verbatim>\<open>updateProductInCart\<close>, \<^verbatim>\<open>deleteProductFromCart\<close>, \<^verbatim>\<open>checkout\<close>) and of the
  method \<^verbatim>\<open>hasSetNonDefaultAddress\<close> of the user model.

  Conventions of the embedding:
  \<^item> a JavaScript Number is a \<open>number\<close>: a double given by its rational value,
    an infinity or NaN, with the arithmetic of the language (every result is rounded
    to the nearest double);
  \<^item> a thrown \<^verbatim>\<open>ApiError\<close> is the left injection of a sum, a returned value the right one;
  \<^item> the database is passed in and returned: every \<^verbatim>\<open>await\<close>ed store call is one
    step of state passing, in the order of the source;
  \<^item> \<^verbatim>\<open>null\<close> and \<^verbatim>\<open>undefined\<close> are \<open>None\<close>.
\<close>

subsection \<open>Numbers\<close>

text \<open>
  The Number type of JavaScript (IEEE 754 binary64): a finite double, given by the
  rational number it stands for, the two infinities and NaN. The two zeros are not
  told apart: no operation of the cart service distinguishes them. The constructor
  \<open>Num\<close> takes any rational; every sum, difference and product of the program is
  rounded to a double by \<open>toDouble\<close>.
\<close>

datatype number = Num rat | Infinity | NegInfinity | NaN

definition twoPow :: "int \<Rightarrow> rat" where
  "twoPow e = (if 0 \<le> e then 2 ^ nat e else 1 / 2 ^ nat (- e))"

text \<open>The binary exponent of a rational other than 0: the floor of its logarithm to base 2.\<close>

definition binade :: "rat \<Rightarrow> int" where
  "binade x =
     (let a = \<bar>x\<bar> in
      if 1 \<le> a then bitlen \<lfloor>a\<rfloor> - 1
      else (let k = bitlen \<lfloor>1 / a\<rfloor> - 1 in if 1 / a = 2 ^ nat k then - k else - k - 1))"

text \<open>Rounding to the nearest integer, a tie going to the even one.\<close>

definition roundHalfEven :: "rat \<Rightarrow> int" where
  "roundHalfEven q =
     (let f = \<lfloor>q\<rfloor>; r = q - of_int f in
      if r < 1 / 2 then f else if 1 / 2 < r then f + 1 else if even f then f else f + 1)"

text \<open>
  The double nearest to a rational: 53 significant bits, exponents from -1022 (below it
  the spacing stays that of the subnormal numbers) to 1023, a result of magnitude
  \<open>2 ^ 1024\<close> or more being an infinity.
\<close>

definition toDouble :: "rat \<Rightarrow> number" where
  "toDouble x =
     (if x = 0 then Num 0
      else
        (let e = max (binade x) (- 1022);
             ulp = twoPow (e - 52);
             y = of_int (roundHalfEven (x / ulp)) * ulp
         in if twoPow 1024 \<le> \<bar>y\<bar> then (if 0 < x then Infinity else NegInfinity) else Num y))"

text \<open>The operators \<^verbatim>\<open>+\<close>, unary \<^verbatim>\<open>-\<close>, binary \<^verbatim>\<open>-\<close>, \<^verbatim>\<open>*\<close>, \<^verbatim>\<open>>\<close> and \<^verbatim>\<open>>=\<close> on numbers.\<close>

fun js_add :: "number \<Rightarrow> number \<Rightarrow> number" where
  "js_add NaN y = NaN"
| "js_add x NaN = NaN"
| "js_add (Num a) (Num b) = toDouble (a + b)"
| "js_add Infinity NegInfinity = NaN"
| "js_add NegInfinity Infinity = NaN"
| "js_add Infinity y = Infinity"
| "js_add NegInfinity y = NegInfinity"
| "js_add (Num a) y = y"

fun js_neg :: "number \<Rightarrow> number" where
  "js_neg (Num a) = Num (- a)"
| "js_neg Infinity = NegInfinity"
| "js_neg NegInfinity = Infinity"
| "js_neg NaN = NaN"

definition js_sub :: "number \<Rightarrow> number \<Rightarrow> number" where
  "js_sub x y = js_add x (js_neg y)"

text \<open>An infinity times a finite number: NaN for 0, otherwise the infinity of the sign.\<close>

definition signedInfinity :: "rat \<Rightarrow> number" where
  "signedInfinity a = (if a = 0 then NaN else if 0 < a then Infinity else NegInfinity)"

fun js_mul :: "number \<Rightarrow> number \<Rightarrow> number" where
  "js_mul NaN y = NaN"
| "js_mul x NaN = NaN"
| "js_mul (Num a) (Num b) = toDouble (a * b)"
| "js_mul (Num a) Infinity = signedInfinity a"
| "js_mul (Num a) NegInfinity = signedInfinity (- a)"
| "js_mul Infinity (Num b) = signedInfinity b"
| "js_mul NegInfinity (Num b) = signedInfinity (- b)"
| "js_mul Infinity Infinity = Infinity"
| "js_mul NegInfinity NegInfinity = Infinity"
| "js_mul Infinity NegInfinity = NegInfinity"
| "js_mul NegInfinity Infinity = NegInfinity"

fun js_gt :: "number \<Rightarrow> number \<Rightarrow> bool" where
  "js_gt NaN y = False"
| "js_gt x NaN = False"
| "js_gt (Num a) (Num b) = (b < a)"
| "js_gt Infinity Infinity = False"
| "js_gt Infinity y = True"
| "js_gt NegInfinity y = False"
| "js_gt (Num a) Infinity = False"
| "js_gt (Num a) NegInfinity = True"

fun js_ge :: "number \<Rightarrow> number \<Rightarrow> bool" where
  "js_ge NaN y = False"
| "js_ge x NaN = False"
| "js_ge (Num a) (Num b) = (b \<le> a)"
| "js_ge Infinity y = True"
| "js_ge NegInfinity NegInfinity = True"
| "js_ge NegInfinity y = False"
| "js_ge (Num a) Infinity = False"
| "js_ge (Num a) NegInfinity = True"

text \<open>
  \<^verbatim>\<open>Number.isInteger\<close>, and the rational value of a finite number (0 for the others,
  which the statements below exclude before they use it).
\<close>

fun isInteger :: "number \<Rightarrow> bool" where
  "isInteger (Num a) = (of_int \<lfloor>a\<rfloor> = a)"
| "isInteger x = False"

fun amount :: "number \<Rightarrow> rat" where
  "amount (Num a) = a"
| "amount x = 0"

subsection \<open>Documents\<close>

text \<open>
  Modelled from the spec: the Product schema (\<^verbatim>\<open>models/product.model.js\<close>) is not among
  the sources. The record has the attributes the spec lists for a product snapshot
  (identifier, name, category, rating, price, image); the service reads \<^verbatim>\<open>_id\<close>
  (here \<open>id'\<close>) and \<^verbatim>\<open>price\<close>. The example response in the controller's comment
  calls the amount \<^verbatim>\<open>cost\<close>; the record has the field under the name the service
  reads.
\<close>

record product =
  id' :: string
  name :: string
  category :: string
  rating :: number
  price :: number
  image' :: string

text \<open>
  Modelled from the spec: the Cart schema (\<^verbatim>\<open>models/cart.model.js\<close>) is not among the
  sources. A cart has an owner email, an ordered sequence of items and a payment
  option; an item embeds a product document and a quantity.
\<close>

record cartItem =
  product' :: product
  quantity :: number

record cart =
  email :: string
  cartItems :: "cartItem list"
  paymentOption :: string

text \<open>The user schema of \<^verbatim>\<open>user.model.js\<close>.\<close>

record user =
  name :: string
  email :: string
  password :: string
  walletMoney :: number
  address :: string

text \<open>
  The configuration module (\<^verbatim>\<open>config/config.js\<close>) is not among the sources: its
  values are parameters of the model.
\<close>

record config =
  default_wallet_money :: number
  default_address :: string
  default_payment_option :: string

subsection \<open>Errors\<close>

text \<open>\<^verbatim>\<open>new ApiError(statusCode, message)\<close>, with the status codes of \<^verbatim>\<open>http-status\<close>.\<close>

datatype ApiError = ApiError nat string

definition NOT_FOUND :: nat where
  "NOT_FOUND = 404"

definition BAD_REQUEST :: nat where
  "BAD_REQUEST = 400"

definition INTERNAL_SERVER_ERROR :: nat where
  "INTERNAL_SERVER_ERROR = 500"

subsection \<open>Promises and truthiness\<close>

text \<open>
  An \<^verbatim>\<open>async\<close> function returns a promise object; \<^verbatim>\<open>await\<close> takes the value out
  of it. A promise, like every object, is truthy whatever value it holds, so
  \<^verbatim>\<open>!p\<close> on a promise \<^verbatim>\<open>p\<close> is \<^verbatim>\<open>false\<close>.
\<close>

datatype 'a promise = Promise 'a

fun await :: "'a promise \<Rightarrow> 'a" where
  "await (Promise v) = v"

fun truthy :: "'a promise \<Rightarrow> bool" where
  "truthy (Promise v) = True"

text \<open>
  \<^verbatim>\<open>parseFloat\<close> of a Number converts it to its string and parses the string back. The
  string of a finite double is a decimal that reads back as the same double, and
  \<^verbatim>\<open>Infinity\<close>, \<^verbatim>\<open>-Infinity\<close> and \<^verbatim>\<open>NaN\<close> read back as themselves: the result is
  the number it was given.
\<close>

definition parseFloat :: "number \<Rightarrow> number" where
  "parseFloat n = n"

subsection \<open>The stores\<close>

text \<open>
  The database: the collections of cart and product documents, and the accounts
  under their unique email.
\<close>

record db =
  carts :: "cart list"
  products :: "product list"
  users :: "string \<rightharpoonup> user"

text \<open>
  Modelled from the spec: the Cart Store, the catalog lookup and the account store are
  the persistence library under the models, not among the sources. Spec 4.1:
  \<^verbatim>\<open>findByEmail(email) -> Cart|absent\<close>, \<^verbatim>\<open>create(email, initialItems, paymentOption) -> Cart\<close>,
  \<^verbatim>\<open>save(cart) -> Cart\<close> (a full-document persist); spec 6: \<^verbatim>\<open>findById(productId) -> Product|absent\<close>.
  A query returns the first document that matches; \<^verbatim>\<open>save\<close> replaces the stored document
  of the same (unique) email. The results of \<^verbatim>\<open>create\<close> and \<^verbatim>\<open>save\<close> are optional
  because the service tests them for \<^verbatim>\<open>null\<close>.
\<close>

definition Cart_findOne :: "db \<Rightarrow> string \<Rightarrow> cart option" where
  "Cart_findOne d e = find (\<lambda>c. cart.email c = e) (carts d)"

definition Cart_create :: "db \<Rightarrow> cart \<Rightarrow> cart option \<times> db" where
  "Cart_create d c = (Some c, d\<lparr>carts := carts d @ [c]\<rparr>)"

definition Cart_save :: "db \<Rightarrow> cart \<Rightarrow> cart option \<times> db" where
  "Cart_save d c =
     (Some c, d\<lparr>carts := map (\<lambda>x. if cart.email x = cart.email c then c else x) (carts d)\<rparr>)"

definition Product_findById :: "db \<Rightarrow> string \<Rightarrow> product option" where
  "Product_findById d productId = find (\<lambda>p. id' p = productId) (products d)"

definition User_save :: "db \<Rightarrow> user \<Rightarrow> db" where
  "User_save d u = d\<lparr>users := (users d)(user.email u \<mapsto> u)\<rparr>"

subsection \<open>Array methods\<close>

text \<open>
  \<^verbatim>\<open>findIndex\<close>: the index of the first element that satisfies the predicate;
  \<open>None\<close> is JavaScript's \<^verbatim>\<open>-1\<close>.
\<close>

fun findIndex :: "('a \<Rightarrow> bool) \<Rightarrow> 'a list \<Rightarrow> nat option" where
  "findIndex P [] = None"
| "findIndex P (x # xs) =
     (if P x then Some 0 else map_option Suc (findIndex P xs))"

text \<open>\<^verbatim>\<open>xs.splice(i, 1)\<close>: the array without its element at index \<open>i\<close>.\<close>

definition splice1 :: "nat \<Rightarrow> 'a list \<Rightarrow> 'a list" where
  "splice1 i xs = take i xs @ drop (Suc i) xs"

subsection \<open>The user model\<close>

text \<open>
  \<^verbatim>\<open>hasSetNonDefaultAddress\<close> is declared \<^verbatim>\<open>async\<close>: it returns a promise of the
  comparison, not the boolean.
\<close>

definition hasSetNonDefaultAddress :: "config \<Rightarrow> user \<Rightarrow> bool promise" where
  "hasSetNonDefaultAddress cfg u = Promise (address u \<noteq> default_address cfg)"

subsection \<open>The cart service\<close>

definition getCartByUser :: "db \<Rightarrow> user \<Rightarrow> ApiError + cart" where
  "getCartByUser d u =
     (case Cart_findOne d (user.email u) of
        None \<Rightarrow> Inl (ApiError NOT_FOUND ''User does not have a cart'')
      | Some c \<Rightarrow> Inr c)"

text \<open>
  \<^verbatim>\<open>addProductToCart\<close>: the cart is looked up first, the product is checked next, and
  only then is a missing cart created.
\<close>

definition isProductInCart :: "string \<Rightarrow> cart \<Rightarrow> bool" where
  "isProductInCart productId c = list_ex (\<lambda>item. id' (product' item) = productId) (cartItems c)"

definition addProductToCart ::
  "config \<Rightarrow> db \<Rightarrow> user \<Rightarrow> string \<Rightarrow> number \<Rightarrow> (ApiError + cart) \<times> db" where
  "addProductToCart cfg d u productId qty =
     (let found = Cart_findOne d (user.email u) in
      case Product_findById d productId of
        None \<Rightarrow> (Inl (ApiError BAD_REQUEST ''Product doesn't exist in database''), d)
      | Some p \<Rightarrow>
          (case (case found of
                   Some c \<Rightarrow> (Some c, d)
                 | None \<Rightarrow>
                     Cart_create d
                       \<lparr>cart.email = user.email u, cartItems = [],
                        paymentOption = default_payment_option cfg\<rparr>) of
             (None, d1) \<Rightarrow>
               (Inl (ApiError INTERNAL_SERVER_ERROR ''Failed to create cart''), d1)
           | (Some c, d1) \<Rightarrow>
               if isProductInCart productId c
               then (Inl (ApiError BAD_REQUEST
                       ''Product already in cart. Use the cart sidebar to update or remove product from cart''),
                     d1)
               else
                 (case Cart_save d1
                         (c\<lparr>cartItems := cartItems c @ [\<lparr>product' = p, quantity = qty\<rparr>]\<rparr>) of
                    (None, d2) \<Rightarrow>
                      (Inl (ApiError INTERNAL_SERVER_ERROR ''Failed to update cart''), d2)
                  | (Some updatedCart, d2) \<Rightarrow> (Inr updatedCart, d2))))"

text \<open>
  \<^verbatim>\<open>updateProductInCart\<close>: \<^verbatim>\<open>find\<close> returns a reference to the first matching item
  of the array, and the assignment to its \<^verbatim>\<open>quantity\<close> changes the array at that
  position; the model keeps the index of the item. The result is the cart, or
  \<^verbatim>\<open>null\<close> (here \<open>None\<close>) when the item was removed.
\<close>

definition updateProductInCart ::
  "db \<Rightarrow> user \<Rightarrow> string \<Rightarrow> number \<Rightarrow> (ApiError + cart option) \<times> db" where
  "updateProductInCart d u productId qty =
     (case Cart_findOne d (user.email u) of
        None \<Rightarrow>
          (Inl (ApiError BAD_REQUEST
             ''User does not have a cart. Use POST to create cart and add a product''), d)
      | Some c \<Rightarrow>
          (case Product_findById d productId of
             None \<Rightarrow> (Inl (ApiError BAD_REQUEST ''Product doesn't exist in database''), d)
           | Some p \<Rightarrow>
               (case findIndex (\<lambda>item. id' (product' item) = productId) (cartItems c) of
                  None \<Rightarrow> (Inl (ApiError BAD_REQUEST ''Product not in cart''), d)
                | Some i \<Rightarrow>
                    if js_gt qty (Num 0)
                    then
                      (let c1 = c\<lparr>cartItems :=
                                    (cartItems c)[i := (cartItems c ! i)\<lparr>quantity := qty\<rparr>]\<rparr>
                       in (Inr (Some c1), snd (Cart_save d c1)))
                    else
                      (let c1 = c\<lparr>cartItems :=
                                    filter (\<lambda>item. id' (product' item) \<noteq> productId)
                                      (cartItems c)\<rparr>
                       in (Inr None, snd (Cart_save d c1))))))"

definition deleteProductFromCart ::
  "db \<Rightarrow> user \<Rightarrow> string \<Rightarrow> (ApiError + cart) \<times> db" where
  "deleteProductFromCart d u productId =
     (case Cart_findOne d (user.email u) of
        None \<Rightarrow> (Inl (ApiError BAD_REQUEST ''User does not have a cart''), d)
      | Some c \<Rightarrow>
          (case findIndex (\<lambda>item. id' (product' item) = productId) (cartItems c) of
             None \<Rightarrow> (Inl (ApiError BAD_REQUEST ''Product not in cart''), d)
           | Some productIndex \<Rightarrow>
               (let c1 = c\<lparr>cartItems := splice1 productIndex (cartItems c)\<rparr>
                in (Inr c1, snd (Cart_save d c1)))))"

text \<open>
  The \<^verbatim>\<open>reduce\<close> of \<^verbatim>\<open>checkout\<close>: a left fold from 0, each product and each sum being
  an operation on doubles.
\<close>

definition cartTotal :: "cartItem list \<Rightarrow> number" where
  "cartTotal items =
     foldl (\<lambda>total item. js_add total (js_mul (price (product' item)) (quantity item)))
       (Num 0) items"

text \<open>
  \<^verbatim>\<open>checkout\<close> changes the user object it was given as well as the stores, so it
  returns the user too. The address test negates the promise that
  \<^verbatim>\<open>hasSetNonDefaultAddress\<close> returns: the source has no \<^verbatim>\<open>await\<close> there.
\<close>

definition checkout :: "config \<Rightarrow> db \<Rightarrow> user \<Rightarrow> (ApiError + cart) \<times> user \<times> db" where
  "checkout cfg d u =
     (case Cart_findOne d (user.email u) of
        None \<Rightarrow> (Inl (ApiError NOT_FOUND ''User does not have a cart''), u, d)
      | Some c \<Rightarrow>
          if length (cartItems c) = 0
          then (Inl (ApiError BAD_REQUEST ''Cart is empty''), u, d)
          else if \<not> truthy (hasSetNonDefaultAddress cfg u)
          then (Inl (ApiError BAD_REQUEST ''Address not set''), u, d)
          else
            (let total = cartTotal (cartItems c);
                 walletBalance = parseFloat (walletMoney u);
                 totalCost = parseFloat total
             in if js_gt totalCost walletBalance
                then (Inl (ApiError BAD_REQUEST ''Wallet balance is insufficient''), u, d)
                else
                  (let u1 = u\<lparr>walletMoney := js_sub walletBalance totalCost\<rparr>;
                       c1 = c\<lparr>cartItems := []\<rparr>;
                       d1 = User_save d u1;
                       d2 = snd (Cart_save d1 c1)
                   in (Inr c1, u1, d2))))"

subsection \<open>The total in exact arithmetic\<close>

text \<open>
  The total as the specification words it: the sum over the items of price times
  quantity, in exact rational arithmetic; and the conditions under which the doubles of
  the source compute it without rounding: integral prices and quantities, and a sum of
  the magnitudes of the item amounts of at most \<open>2 ^ 53\<close>.
\<close>

definition exactTotal :: "cartItem list \<Rightarrow> rat" where
  "exactTotal items = (\<Sum>item\<leftarrow>items. amount (price (product' item)) * amount (quantity item))"

definition absTotal :: "cartItem list \<Rightarrow> rat" where
  "absTotal items = (\<Sum>item\<leftarrow>items. \<bar>amount (price (product' item)) * amount (quantity item)\<bar>)"

definition integerAmounts :: "cartItem list \<Rightarrow> bool" where
  "integerAmounts items =
     list_all (\<lambda>item. isInteger (price (product' item)) \<and> isInteger (quantity item)) items"

subsection \<open>The documented example\<close>

text \<open>
  The cart of the example response and of the worked example of the specification: two
  items, of price 20 with quantity 2 and of price 15 with quantity 1.
\<close>

definition example_config :: config where
  "example_config =
     \<lparr>default_wallet_money = Num 500, default_address = ''ADDRESS_NOT_SET'',
      default_payment_option = ''PAYMENT_OPTION_DEFAULT''\<rparr>"

definition ball :: product where
  "ball = \<lparr>id' = ''5f71c1ca04c69a5874e9fd45'', product.name = ''ball'', category = ''Sports'',
            rating = Num 5, price = Num 20, image' = ''google.com''\<rparr>"

definition bat :: product where
  "bat = \<lparr>id' = ''5f71c1ca04c69a5874e9fd46'', product.name = ''bat'', category = ''Sports'',
           rating = Num 4, price = Num 15, image' = ''google.com''\<rparr>"

definition example_items :: "cartItem list" where
  "example_items = [\<lparr>product' = ball, quantity = Num 2\<rparr>, \<lparr>product' = bat, quantity = Num 1\<rparr>]"

definition example_cart :: cart where
  "example_cart =
     \<lparr>cart.email = ''crio-user@gmail.com'', cartItems = example_items,
      paymentOption = ''PAYMENT_OPTION_DEFAULT''\<rparr>"

definition example_user :: "rat \<Rightarrow> string \<Rightarrow> user" where
  "example_user w a =
     \<lparr>user.name = ''crio-user'', user.email = ''crio-user@gmail.com'', password = ''password1'',
      walletMoney = Num w, address = a\<rparr>"

definition example_db :: "rat \<Rightarrow> string \<Rightarrow> db" where
  "example_db w a =
     \<lparr>carts = [example_cart], products = [ball, bat],
      users = [''crio-user@gmail.com'' \<mapsto> example_user w a]\<rparr>"

definition example_db_empty_catalog :: db where
  "example_db_empty_catalog = (example_db 100 ''Home'')\<lparr>products := []\<rparr>"

definition example_db_no_carts :: db where
  "example_db_no_carts = (example_db 100 ''Home'')\<lparr>carts := []\<rparr>"

text \<open>
  Items on which the doubles round: a price of \<open>2 ^ 53\<close> next to a price of 1, and the
  price 0.1 (the double nearest to it) with quantity 3. A cart with two items of the
  same product.
\<close>

definition large_items :: "cartItem list" where
  "large_items =
     [\<lparr>product' = ball\<lparr>price := Num (2 ^ 53)\<rparr>, quantity = Num 1\<rparr>,
      \<lparr>product' = bat\<lparr>price := Num 1\<rparr>, quantity = Num 1\<rparr>]"

definition fractional_items :: "cartItem list" where
  "fractional_items =
     [\<lparr>product' = ball\<lparr>price := Num (3602879701896397 / 2 ^ 55)\<rparr>, quantity = Num 3\<rparr>]"

definition example_db_duplicate :: db where
  "example_db_duplicate =
     (example_db 100 ''Home'')
       \<lparr>carts := [example_cart\<lparr>cartItems :=
          [\<lparr>product' = ball, quantity = Num 2\<rparr>, \<lparr>product' = ball, quantity = Num 1\<rparr>]\<rparr>]\<rparr>"

subsection \<open>Sequences of calls and invariants of the stored carts\<close>

text \<open>
  The two invariants of the data model: every stored quantity is positive, and no cart
  holds two items of the same product identifier.
\<close>

definition quantitiesPositive :: "db \<Rightarrow> bool" where
  "quantitiesPositive d =
     list_all (\<lambda>c. list_all (\<lambda>item. js_gt (quantity item) (Num 0)) (cartItems c)) (carts d)"

definition productsDistinct :: "db \<Rightarrow> bool" where
  "productsDistinct d =
     list_all (\<lambda>c. distinct (map (\<lambda>item. id' (product' item)) (cartItems c))) (carts d)"

text \<open>
  A call of one of the four operations that change a cart, and the store after a
  sequence of such calls (a call that throws leaves the store it had reached).
\<close>

datatype request =
  AddProductToCart user string number
| UpdateProductInCart user string number
| DeleteProductFromCart user string
| Checkout user

fun serve :: "config \<Rightarrow> db \<Rightarrow> request \<Rightarrow> db" where
  "serve cfg d (AddProductToCart u productId qty) = snd (addProductToCart cfg d u productId qty)"
| "serve cfg d (UpdateProductInCart u productId qty) = snd (updateProductInCart d u productId qty)"
| "serve cfg d (DeleteProductFromCart u productId) = snd (deleteProductFromCart d u productId)"
| "serve cfg d (Checkout u) = snd (snd (checkout cfg d u))"

definition serveAll :: "config \<Rightarrow> db \<Rightarrow> request list \<Rightarrow> db" where
  "serveAll cfg d rs = foldl (serve cfg) d rs"

text \<open>The calls whose \<^verbatim>\<open>addProductToCart\<close> requests carry a quantity above 0.\<close>

fun addsPositive :: "request \<Rightarrow> bool" where
  "addsPositive (AddProductToCart u productId qty) = js_gt qty (Num 0)"
| "addsPositive r = True"

section \<open>Properties\<close>

subsection \<open>Doubles on integers\<close>

text \<open>
  An integer of magnitude at most \<open>2 ^ 53\<close> is a double: rounding leaves it as it is, so
  sums, differences and products that stay in this range are exact.
\<close>

lemma roundHalfEven_of_int: "roundHalfEven (of_int k) = k"
  by (simp add: roundHalfEven_def)

lemma binade_of_int: "n \<noteq> 0 \<Longrightarrow> binade (of_int n) = bitlen \<bar>n\<bar> - 1"
proof -
  assume "n \<noteq> 0"
  then have "1 \<le> \<bar>n\<bar>" by simp
  then have "(1::rat) \<le> \<bar>of_int n\<bar>"
    by (metis of_int_abs of_int_1 of_int_le_iff)
  moreover have "\<lfloor>\<bar>of_int n :: rat\<bar>\<rfloor> = \<bar>n\<bar>"
    by (metis of_int_abs floor_of_int)
  ultimately show ?thesis
    by (simp add: binade_def)
qed

lemma bitlen_safe:
  assumes "0 < m" and "m \<le> 2 ^ 53"
  shows "1 \<le> bitlen m" and "bitlen m \<le> 54" and "bitlen m = 54 \<Longrightarrow> m = 2 ^ 53"
proof -
  from assms(1) show "1 \<le> bitlen m"
    by (simp add: bitlen_ge_iff_power)
  from assms(2) have "m < 2 ^ nat 54"
    by simp
  then show "bitlen m \<le> 54"
    by (simp add: bitlen_le_iff_power)
  assume "bitlen m = 54"
  with bitlen_bounds [OF assms(1)] have "2 ^ 53 \<le> m"
    by simp
  with assms(2) show "m = 2 ^ 53"
    by simp
qed

lemma toDouble_of_int:
  assumes "\<bar>n\<bar> \<le> 2 ^ 53"
  shows "toDouble (of_int n) = Num (of_int n)"
proof (cases "n = 0")
  case True
  then show ?thesis by (simp add: toDouble_def)
next
  case False
  let ?x = "of_int n :: rat"
  define e where "e = bitlen \<bar>n\<bar> - 1"
  define ulp where "ulp = twoPow (e - 52)"
  from False have pos: "0 < \<bar>n\<bar>" by simp
  note b = bitlen_safe [OF pos assms]
  have e: "max (binade ?x) (- 1022) = e"
    using b(1) by (simp add: binade_of_int [OF False] e_def)
  have small: "\<not> twoPow 1024 \<le> \<bar>?x\<bar>"
  proof -
    have "\<bar>?x\<bar> \<le> 2 ^ 53"
      using assms by (metis of_int_abs of_int_le_iff of_int_numeral of_int_power)
    also have "\<dots> < (2::rat) ^ 1024"
      by (rule power_strict_increasing) simp_all
    finally show ?thesis
      by (simp add: twoPow_def)
  qed
  have round: "of_int (roundHalfEven (?x / ulp)) * ulp = ?x"
  proof (cases "e \<le> 52")
    case True
    define k where "k = nat (52 - e)"
    have ulp: "ulp = 1 / 2 ^ k"
      using True by (cases "e = 52") (simp_all add: twoPow_def k_def ulp_def)
    have scaled: "?x / (1 / 2 ^ k) = of_int (n * 2 ^ k)"
      by simp
    have "roundHalfEven (?x / (1 / 2 ^ k)) = n * 2 ^ k"
      by (simp only: scaled roundHalfEven_of_int)
    then show ?thesis
      unfolding ulp by simp
  next
    case False
    with b(2) have len: "bitlen \<bar>n\<bar> = 54" by (simp add: e_def)
    with b(3) have n: "\<bar>n\<bar> = 2 ^ 53" by simp
    have ulp: "ulp = 2"
      using len by (simp add: twoPow_def ulp_def e_def)
    from n have "n = 2 ^ 53 \<or> n = - (2 ^ 53)"
      by (simp add: abs_if split: if_splits)
    then have half: "?x / 2 = of_int (n div 2)" and twice: "(of_int (n div 2) :: rat) * 2 = ?x"
      by auto
    have "roundHalfEven (?x / 2) = n div 2"
      by (simp only: half roundHalfEven_of_int)
    with twice show ?thesis
      unfolding ulp by simp
  qed
  have "toDouble ?x =
          (if twoPow 1024 \<le> \<bar>of_int (roundHalfEven (?x / ulp)) * ulp\<bar>
           then (if 0 < ?x then Infinity else NegInfinity)
           else Num (of_int (roundHalfEven (?x / ulp)) * ulp))"
    using False unfolding toDouble_def Let_def e ulp_def by simp
  with round small show ?thesis
    by simp
qed

lemma toDouble_exact:
  assumes "x \<in> \<int>" and "\<bar>x\<bar> \<le> 2 ^ 53"
  shows "toDouble x = Num x"
proof -
  from assms(1) obtain n where n: "x = of_int n"
    by (auto elim: Ints_cases)
  with assms(2) have "\<bar>n\<bar> \<le> 2 ^ 53"
    by (metis of_int_abs of_int_le_iff of_int_numeral of_int_power)
  from toDouble_of_int [OF this] n show ?thesis
    by simp
qed

lemma isInteger_Ints: "isInteger v \<longleftrightarrow> (\<exists>a. v = Num a \<and> a \<in> \<int>)"
  by (cases v) (auto simp: Ints_def intro: sym)

lemma floor_divide_numeral_rat:
  "\<lfloor>numeral a / numeral b :: rat\<rfloor> = numeral a div numeral b"
  by (metis floor_divide_of_int_eq of_int_numeral)

lemma toDouble_at:
  assumes "x \<noteq> 0" and "binade x = e" and "- 1022 \<le> e"
    and "roundHalfEven (x / twoPow (e - 52)) = m"
    and "\<bar>of_int m * twoPow (e - 52)\<bar> < twoPow 1024"
  shows "toDouble x = Num (of_int m * twoPow (e - 52))"
proof -
  from assms(2,3) have "max (binade x) (- 1022) = e"
    by simp
  with assms(1,4,5) show ?thesis
    unfolding toDouble_def Let_def by simp
qed

lemma toDouble_large: "toDouble (2 ^ 53 + 1) = Num (2 ^ 53)"
proof -
  have "bitlen 9007199254740993 = 54"
    using bitlen_twopow_add_eq [of 1 53] by simp
  then have "binade (2 ^ 53 + 1) = 53"
    by (simp add: binade_def)
  then have "toDouble (2 ^ 53 + 1) = Num (of_int (2 ^ 52) * twoPow (53 - 52))"
    by (rule toDouble_at [rotated]) (simp_all add: roundHalfEven_def twoPow_def Let_def floor_divide_numeral_rat)
  then show ?thesis
    by (simp add: twoPow_def)
qed

lemma bitlen_3: "bitlen 3 = 2"
  using bitlen_twopow_add_eq [of 1 1] by simp

lemma toDouble_product: "toDouble (10808639105689191 / 2 ^ 55) = Num (5404319552844596 / 2 ^ 54)"
proof -
  have "binade (10808639105689191 / 2 ^ 55) = - 2"
    by (simp add: binade_def Let_def bitlen_3 floor_divide_numeral_rat)
  then have "toDouble (10808639105689191 / 2 ^ 55) =
      Num (of_int 5404319552844596 * twoPow (- 2 - 52))"
    by (rule toDouble_at [rotated]) (simp_all add: roundHalfEven_def twoPow_def Let_def floor_divide_numeral_rat)
  then show ?thesis
    by (simp add: twoPow_def)
qed

lemma toDouble_double: "toDouble (5404319552844596 / 2 ^ 54) = Num (5404319552844596 / 2 ^ 54)"
proof -
  have "binade (5404319552844596 / 2 ^ 54) = - 2"
    by (simp add: binade_def Let_def bitlen_3 floor_divide_numeral_rat)
  then have "toDouble (5404319552844596 / 2 ^ 54) =
      Num (of_int 5404319552844596 * twoPow (- 2 - 52))"
    by (rule toDouble_at [rotated]) (simp_all add: roundHalfEven_def twoPow_def Let_def floor_divide_numeral_rat)
  then show ?thesis
    by (simp add: twoPow_def)
qed

lemma js_ge_not_gt: "js_ge a b \<Longrightarrow> \<not> js_gt b a"
  by (cases a; cases b) simp_all

lemma absTotal_nonneg: "0 \<le> absTotal items"
  unfolding absTotal_def by (induction items) simp_all

lemma exactTotal_le_absTotal: "\<bar>exactTotal items\<bar> \<le> absTotal items"
  unfolding exactTotal_def absTotal_def
  by (induction items) (simp_all add: abs_triangle_ineq [THEN order_trans])

lemma exactTotal_Ints: "integerAmounts items \<Longrightarrow> exactTotal items \<in> \<int>"
  unfolding exactTotal_def integerAmounts_def
  by (induction items) (auto simp: isInteger_Ints)

lemma cartTotal_from:
  assumes "integerAmounts items" and "acc \<in> \<int>" and "\<bar>acc\<bar> + absTotal items \<le> 2 ^ 53"
  shows "foldl (\<lambda>total item. js_add total (js_mul (price (product' item)) (quantity item)))
           (Num acc) items = Num (acc + exactTotal items)"
  using assms
proof (induction items arbitrary: acc)
  case Nil
  then show ?case by (simp add: exactTotal_def)
next
  case (Cons item items)
  from Cons.prems(1) obtain p q
    where p: "price (product' item) = Num p" "p \<in> \<int>"
      and q: "quantity item = Num q" "q \<in> \<int>"
      and rest: "integerAmounts items"
    by (auto simp: integerAmounts_def isInteger_Ints)
  have total: "absTotal (item # items) = \<bar>p * q\<bar> + absTotal items"
    and exact: "exactTotal (item # items) = p * q + exactTotal items"
    by (simp_all add: absTotal_def exactTotal_def p q)
  note nonneg = absTotal_nonneg [of items]
  have "\<bar>p * q\<bar> \<le> 2 ^ 53"
    using Cons.prems(3) nonneg unfolding total by linarith
  with p(2) q(2) have mul: "toDouble (p * q) = Num (p * q)"
    by (simp add: toDouble_exact)
  have "\<bar>acc + p * q\<bar> \<le> \<bar>acc\<bar> + \<bar>p * q\<bar>"
    by (rule abs_triangle_ineq)
  then have bound: "\<bar>acc + p * q\<bar> + absTotal items \<le> 2 ^ 53"
    using Cons.prems(3) unfolding total by linarith
  with nonneg have "\<bar>acc + p * q\<bar> \<le> 2 ^ 53"
    by linarith
  moreover from Cons.prems(2) p(2) q(2) have int: "acc + p * q \<in> \<int>"
    by simp
  ultimately have add: "toDouble (acc + p * q) = Num (acc + p * q)"
    by (simp add: toDouble_exact)
  from Cons.IH [OF rest int bound] show ?case
    by (simp add: p q mul add exact add.assoc)
qed

lemma cartTotal_exactTotal:
  "integerAmounts items \<Longrightarrow> absTotal items \<le> 2 ^ 53 \<Longrightarrow> cartTotal items = Num (exactTotal items)"
  using cartTotal_from [of items 0] by (simp add: cartTotal_def)

lemma js_sub_exactTotal:
  assumes "integerAmounts items" and "isInteger w"
    and "\<bar>amount w\<bar> + absTotal items \<le> 2 ^ 53"
  shows "js_sub w (Num (exactTotal items)) = Num (amount w - exactTotal items)"
proof -
  from assms(2) obtain a where w: "w = Num a" and a: "a \<in> \<int>"
    by (auto simp: isInteger_Ints)
  from exactTotal_le_absTotal [of items] assms(3)
  have "\<bar>a - exactTotal items\<bar> \<le> 2 ^ 53"
    unfolding w by (simp add: abs_le_iff) linarith
  moreover from a exactTotal_Ints [OF assms(1)] have "a - exactTotal items \<in> \<int>"
    by simp
  ultimately show ?thesis
    by (simp add: w js_sub_def toDouble_exact)
qed

subsection \<open>Stores and arrays\<close>

lemma find_append_last:
  "find P (xs @ [c]) = (case find P xs of Some x \<Rightarrow> Some x | None \<Rightarrow> if P c then Some c else None)"
  by (induction xs) auto

lemma find_replace_same:
  "find (\<lambda>x. f x = f c) (map (\<lambda>x. if f x = f c then c else x) xs) =
     (case find (\<lambda>x. f x = f c) xs of None \<Rightarrow> None | Some x \<Rightarrow> Some c)"
  by (induction xs) auto

lemma find_replace_other:
  "e \<noteq> f c \<Longrightarrow>
   find (\<lambda>x. f x = e) (map (\<lambda>x. if f x = f c then c else x) xs) = find (\<lambda>x. f x = e) xs"
  by (induction xs) auto

lemma Cart_findOne_email: "Cart_findOne d e = Some c \<Longrightarrow> cart.email c = e"
  by (auto simp: Cart_findOne_def find_Some_iff)

lemma Cart_findOne_save_same:
  "Cart_findOne d (cart.email c) = Some c0 \<Longrightarrow> Cart_findOne (snd (Cart_save d c)) (cart.email c) = Some c"
  by (simp add: Cart_findOne_def Cart_save_def find_replace_same)

lemma Cart_findOne_save_other:
  "e \<noteq> cart.email c \<Longrightarrow> Cart_findOne (snd (Cart_save d c)) e = Cart_findOne d e"
  by (simp add: Cart_findOne_def Cart_save_def find_replace_other)

lemma Cart_findOne_create:
  "Cart_findOne d (cart.email c) = None \<Longrightarrow> Cart_findOne (snd (Cart_create d c)) (cart.email c) = Some c"
  by (simp add: Cart_findOne_def Cart_create_def find_append_last)

lemma findIndex_None: "findIndex P xs = None \<longleftrightarrow> \<not> list_ex P xs"
  by (induction xs) auto

lemma findIndex_Some:
  "findIndex P xs = Some i \<Longrightarrow> i < length xs \<and> P (xs ! i) \<and> (\<forall>j<i. \<not> P (xs ! j))"
proof (induction xs arbitrary: i)
  case Nil
  then show ?case by simp
next
  case (Cons x xs)
  show ?case
  proof (cases "P x")
    case True
    with Cons.prems show ?thesis by simp
  next
    case False
    with Cons.prems obtain k where k: "findIndex P xs = Some k" "i = Suc k"
      by auto
    from Cons.IH [OF k(1)] False k(2) show ?thesis
      by (auto simp: less_Suc_eq_0_disj)
  qed
qed

lemma filter_distinct_splice1:
  "distinct (map f xs) \<Longrightarrow> findIndex (\<lambda>x. f x = k) xs = Some i \<Longrightarrow>
   filter (\<lambda>x. f x \<noteq> k) xs = splice1 i xs"
proof (induction xs arbitrary: i)
  case Nil
  then show ?case by simp
next
  case (Cons x xs)
  show ?case
  proof (cases "f x = k")
    case True
    from Cons.prems(2) True have "i = 0"
      by simp
    moreover from Cons.prems(1) have "f x \<notin> f ` set xs"
      by simp
    with True have "\<forall>y\<in>set xs. f y \<noteq> k"
      by blast
    ultimately have "i = 0" and "\<forall>y\<in>set xs. f y \<noteq> k"
      by simp_all
    with True show ?thesis
      by (simp add: splice1_def filter_id_conv)
  next
    case False
    with Cons.prems obtain j where j: "findIndex (\<lambda>x. f x = k) xs = Some j" "i = Suc j"
      by auto
    from Cons.prems have "distinct (map f xs)" by simp
    from Cons.IH [OF this j(1)] False j(2) show ?thesis
      by (simp add: splice1_def)
  qed
qed

lemma findIndex_filter_None: "findIndex (\<lambda>x. f x = k) (filter (\<lambda>x. f x \<noteq> k) xs) = None"
  by (simp add: findIndex_None list_ex_iff)

lemma isProductInCart_findIndex:
  "isProductInCart productId c \<longleftrightarrow>
   findIndex (\<lambda>item. id' (product' item) = productId) (cartItems c) \<noteq> None"
  by (simp add: isProductInCart_def findIndex_None)

lemma Product_findById_id: "Product_findById d productId = Some p \<Longrightarrow> id' p = productId"
  by (auto simp: Product_findById_def find_Some_iff)

lemma map_update_same_key:
  "f x = f (xs ! i) \<Longrightarrow> map f (xs[i := x]) = map f xs"
  by (induction xs arbitrary: i) (auto split: nat.split)

lemma distinct_splice1: "distinct ys \<Longrightarrow> distinct (splice1 i ys)"
  using set_take_disj_set_drop_if_distinct [of ys i "Suc i"]
  by (simp add: splice1_def)

lemma map_splice1: "map f (splice1 i xs) = splice1 i (map f xs)"
  by (simp add: splice1_def take_map drop_map)

lemma hasSetNonDefaultAddress_awaited:
  "await (hasSetNonDefaultAddress cfg u) \<longleftrightarrow> address u \<noteq> default_address cfg"
  by (simp add: hasSetNonDefaultAddress_def)

subsection \<open>Checkout\<close>

lemmas example_defs =
  example_config_def ball_def bat_def example_items_def example_cart_def example_user_def
  example_db_def example_db_empty_catalog_def example_db_no_carts_def example_db_duplicate_def

lemmas store_defs =
  Cart_findOne_def Cart_create_def Cart_save_def Product_findById_def User_save_def

lemmas status_defs = NOT_FOUND_def BAD_REQUEST_def INTERNAL_SERVER_ERROR_def

lemma checkout_never_address_not_set:
  "fst (checkout cfg d u) \<noteq> Inl (ApiError BAD_REQUEST ''Address not set'')"
  by (simp add: checkout_def hasSetNonDefaultAddress_def Let_def status_defs
      split: option.split)

lemma checkout_error_unchanged:
  "fst (checkout cfg d u) = Inl e \<Longrightarrow> snd (checkout cfg d u) = (u, d)"
  by (simp add: checkout_def Let_def split: option.splits if_splits)

lemma checkout_no_cart:
  "Cart_findOne d (user.email u) = None \<Longrightarrow>
   checkout cfg d u = (Inl (ApiError NOT_FOUND ''User does not have a cart''), u, d)"
  by (simp add: checkout_def)

lemma checkout_empty_cart:
  "Cart_findOne d (user.email u) = Some c \<Longrightarrow> cartItems c = [] \<Longrightarrow>
   checkout cfg d u = (Inl (ApiError BAD_REQUEST ''Cart is empty''), u, d)"
  by (simp add: checkout_def)

lemma checkout_insufficient:
  "Cart_findOne d (user.email u) = Some c \<Longrightarrow> cartItems c \<noteq> [] \<Longrightarrow>
   js_gt (cartTotal (cartItems c)) (walletMoney u) \<Longrightarrow>
   checkout cfg d u = (Inl (ApiError BAD_REQUEST ''Wallet balance is insufficient''), u, d)"
  by (simp add: checkout_def hasSetNonDefaultAddress_def Let_def parseFloat_def)

lemma cartTotal_example: "cartTotal example_items = Num 55"
  by (simp add: cartTotal_def example_defs toDouble_exact)

lemma checkout_example_insufficient:
  "checkout example_config (example_db 50 ''Home'') (example_user 50 ''Home'') =
     (Inl (ApiError BAD_REQUEST ''Wallet balance is insufficient''),
      example_user 50 ''Home'', example_db 50 ''Home'')"
proof -
  have "Cart_findOne (example_db 50 ''Home'') (user.email (example_user 50 ''Home'')) =
          Some example_cart"
    by (simp add: Cart_findOne_def example_defs)
  moreover have "cartItems example_cart \<noteq> []"
    by (simp add: example_defs)
  moreover have "js_gt (cartTotal (cartItems example_cart)) (walletMoney (example_user 50 ''Home''))"
    using cartTotal_example by (simp add: example_cart_def example_user_def)
  ultimately show ?thesis
    by (rule checkout_insufficient)
qed

lemma checkout_example:
  "checkout example_config (example_db w a) (example_user w a) =
     (if js_gt (Num 55) (Num w)
      then (Inl (ApiError BAD_REQUEST ''Wallet balance is insufficient''),
            example_user w a, example_db w a)
      else (Inr (example_cart\<lparr>cartItems := []\<rparr>),
            (example_user w a)\<lparr>walletMoney := js_sub (Num w) (Num 55)\<rparr>,
            \<lparr>carts = [example_cart\<lparr>cartItems := []\<rparr>], products = [ball, bat],
             users = [''crio-user@gmail.com'' \<mapsto>
               (example_user w a)\<lparr>walletMoney := js_sub (Num w) (Num 55)\<rparr>]\<rparr>))"
proof -
  have "example_items \<noteq> []"
    by (simp add: example_items_def)
  with cartTotal_example show ?thesis
    by (simp add: checkout_def hasSetNonDefaultAddress_def Let_def parseFloat_def store_defs
        example_db_def example_user_def example_cart_def)
qed

text \<open>
  Claim C1: checkout fails with \<^verbatim>\<open>Address not set\<close> whenever the user's address is the
  configured default address. The code does not: the address test negates a promise,
  which is never falsy, so a user whose address is the default and whose cart is not
  empty is checked out.
\<close>

theorem checkout_default_address_not_rejected:
  "address (example_user 100 ''ADDRESS_NOT_SET'') = default_address example_config \<and>
   fst (checkout example_config (example_db 100 ''ADDRESS_NOT_SET'')
          (example_user 100 ''ADDRESS_NOT_SET'')) =
     Inr (example_cart\<lparr>cartItems := []\<rparr>)"
  by (simp add: checkout_example) (simp add: example_user_def example_config_def)

text \<open>
  Claim C5: a checkout that violates a precondition (no cart, empty cart, default
  address, total above the wallet balance) fails with the message of that condition and
  leaves the wallet and the cart items as they were. For the default address the code
  does not: with a total of 55 and a balance of 60 the wallet is debited to 5 and the cart
  is emptied. The other three conditions are \<open>checkout_no_cart\<close>, \<open>checkout_empty_cart\<close>
  and \<open>checkout_insufficient\<close>, and every failure leaves the state unchanged
  (\<open>checkout_error_unchanged\<close>).
\<close>

theorem checkout_default_address_changes_state:
  "address (example_user 60 ''ADDRESS_NOT_SET'') = default_address example_config \<and>
   walletMoney (fst (snd (checkout example_config (example_db 60 ''ADDRESS_NOT_SET'')
          (example_user 60 ''ADDRESS_NOT_SET'')))) = Num 5 \<and>
   Cart_findOne (snd (snd (checkout example_config (example_db 60 ''ADDRESS_NOT_SET'')
          (example_user 60 ''ADDRESS_NOT_SET'')))) ''crio-user@gmail.com'' =
     Some (example_cart\<lparr>cartItems := []\<rparr>)"
  by (simp add: checkout_example)
    (simp add: example_user_def example_config_def example_cart_def js_sub_def toDouble_exact
      Cart_findOne_def)

text \<open>
  Claim C2: for a user with a non-empty cart, an address other than the default and a
  wallet balance of at least the cart total, checkout returns the cart with no items,
  the wallet balance is the former balance minus the total, and both the account and the
  cart are stored so. The comparison, the total and the difference are those of the
  source, on doubles; when prices, quantities and balance are integers and the
  magnitudes of the balance and of the item amounts sum to at most \<open>2 ^ 53\<close>, the total
  is the exact sum and the new balance the exact difference.
\<close>

theorem checkout_success:
  assumes "Cart_findOne d (user.email u) = Some c"
    and "cartItems c \<noteq> []"
    and "address u \<noteq> default_address cfg"
    and "js_ge (walletMoney u) (cartTotal (cartItems c))"
  shows "fst (checkout cfg d u) = Inr (c\<lparr>cartItems := []\<rparr>) \<and>
         fst (snd (checkout cfg d u)) =
           u\<lparr>walletMoney := js_sub (walletMoney u) (cartTotal (cartItems c))\<rparr> \<and>
         users (snd (snd (checkout cfg d u))) (user.email u) =
           Some (u\<lparr>walletMoney := js_sub (walletMoney u) (cartTotal (cartItems c))\<rparr>) \<and>
         Cart_findOne (snd (snd (checkout cfg d u))) (user.email u) =
           Some (c\<lparr>cartItems := []\<rparr>) \<and>
         (integerAmounts (cartItems c) \<and> isInteger (walletMoney u) \<and>
          \<bar>amount (walletMoney u)\<bar> + absTotal (cartItems c) \<le> 2 ^ 53 \<longrightarrow>
            cartTotal (cartItems c) = Num (exactTotal (cartItems c)) \<and>
            walletMoney (fst (snd (checkout cfg d u))) =
              Num (amount (walletMoney u) - exactTotal (cartItems c)))"
proof -
  let ?total = "cartTotal (cartItems c)"
  let ?u1 = "u\<lparr>walletMoney := js_sub (walletMoney u) ?total\<rparr>"
  let ?c1 = "c\<lparr>cartItems := []\<rparr>"
  have run: "checkout cfg d u = (Inr ?c1, ?u1, snd (Cart_save (User_save d ?u1) ?c1))"
    using assms(1-3) js_ge_not_gt [OF assms(4)]
    by (simp add: checkout_def hasSetNonDefaultAddress_def Let_def parseFloat_def)
  have key: "cart.email ?c1 = user.email u"
    using Cart_findOne_email [OF assms(1)] by simp
  have "Cart_findOne (User_save d ?u1) (cart.email ?c1) = Some c"
    using assms(1) key by (simp add: Cart_findOne_def User_save_def)
  from Cart_findOne_save_same [OF this] key
  have cart: "Cart_findOne (snd (Cart_save (User_save d ?u1) ?c1)) (user.email u) = Some ?c1"
    by simp
  have acct: "users (snd (Cart_save (User_save d ?u1) ?c1)) (user.email u) = Some ?u1"
    by (simp add: Cart_save_def User_save_def)
  have exact: "?total = Num (exactTotal (cartItems c)) \<and>
      walletMoney ?u1 = Num (amount (walletMoney u) - exactTotal (cartItems c))"
    if safe: "integerAmounts (cartItems c)" "isInteger (walletMoney u)"
      "\<bar>amount (walletMoney u)\<bar> + absTotal (cartItems c) \<le> 2 ^ 53"
  proof -
    from safe(3) have "absTotal (cartItems c) \<le> 2 ^ 53"
      by linarith
    from cartTotal_exactTotal [OF safe(1) this] js_sub_exactTotal [OF safe]
    show ?thesis
      by simp
  qed
  from run cart acct
  have result: "fst (checkout cfg d u) = Inr ?c1 \<and>
      fst (snd (checkout cfg d u)) = ?u1 \<and>
      users (snd (snd (checkout cfg d u))) (user.email u) = Some ?u1 \<and>
      Cart_findOne (snd (snd (checkout cfg d u))) (user.email u) = Some ?c1"
    by simp
  then have after: "fst (snd (checkout cfg d u)) = ?u1"
    by simp
  have "integerAmounts (cartItems c) \<and> isInteger (walletMoney u) \<and>
      \<bar>amount (walletMoney u)\<bar> + absTotal (cartItems c) \<le> 2 ^ 53 \<longrightarrow>
        ?total = Num (exactTotal (cartItems c)) \<and>
        walletMoney (fst (snd (checkout cfg d u))) =
          Num (amount (walletMoney u) - exactTotal (cartItems c))"
  proof (intro impI, elim conjE)
    assume "integerAmounts (cartItems c)" and "isInteger (walletMoney u)"
      and "\<bar>amount (walletMoney u)\<bar> + absTotal (cartItems c) \<le> 2 ^ 53"
    from exact [OF this] show "?total = Num (exactTotal (cartItems c)) \<and>
        walletMoney (fst (snd (checkout cfg d u))) =
          Num (amount (walletMoney u) - exactTotal (cartItems c))"
      unfolding after .
  qed
  with result show ?thesis
    by blast
qed

theorem checkout_success_witness:
  "fst (checkout example_config (example_db 100 ''Home'') (example_user 100 ''Home'')) =
     Inr (example_cart\<lparr>cartItems := []\<rparr>) \<and>
   cartTotal (cartItems example_cart) = Num 55 \<and>
   walletMoney (fst (snd (checkout example_config (example_db 100 ''Home'')
     (example_user 100 ''Home'')))) = Num 45"
proof -
  let ?u = "example_user 100 ''Home''"
  have 1: "Cart_findOne (example_db 100 ''Home'') (user.email ?u) = Some example_cart"
    by (simp add: Cart_findOne_def example_defs)
  have 2: "cartItems example_cart \<noteq> []"
    by (simp add: example_defs)
  have 3: "address ?u \<noteq> default_address example_config"
    by (simp add: example_defs)
  have 4: "js_ge (walletMoney ?u) (cartTotal (cartItems example_cart))"
    using cartTotal_example by (simp add: example_cart_def example_user_def)
  have 5: "integerAmounts (cartItems example_cart)"
    by (simp add: integerAmounts_def example_defs)
  have 6: "isInteger (walletMoney ?u)"
    by (simp add: example_defs)
  have 7: "\<bar>amount (walletMoney ?u)\<bar> + absTotal (cartItems example_cart) \<le> 2 ^ 53"
    by (simp add: absTotal_def example_defs)
  have 8: "exactTotal (cartItems example_cart) = 55"
    by (simp add: exactTotal_def example_defs)
  from checkout_success [OF 1 2 3 4]
  have r: "fst (checkout example_config (example_db 100 ''Home'') ?u) =
      Inr (example_cart\<lparr>cartItems := []\<rparr>)"
    and e: "integerAmounts (cartItems example_cart) \<and> isInteger (walletMoney ?u) \<and>
      \<bar>amount (walletMoney ?u)\<bar> + absTotal (cartItems example_cart) \<le> 2 ^ 53 \<longrightarrow>
        cartTotal (cartItems example_cart) = Num (exactTotal (cartItems example_cart)) \<and>
        walletMoney (fst (snd (checkout example_config (example_db 100 ''Home'') ?u))) =
          Num (amount (walletMoney ?u) - exactTotal (cartItems example_cart))"
    by blast+
  from e 5 6 7
  have "cartTotal (cartItems example_cart) = Num (exactTotal (cartItems example_cart))"
    and "walletMoney (fst (snd (checkout example_config (example_db 100 ''Home'') ?u))) =
          Num (amount (walletMoney ?u) - exactTotal (cartItems example_cart))"
    by blast+
  with r 8 show ?thesis
    by (simp add: example_user_def)
qed

text \<open>
  Claim C3 says that the cart total is the exact sum of price times quantity, with no
  rounding. The source adds and multiplies doubles: every product and every sum is
  rounded. For a price of \<open>2 ^ 53\<close> next to a price of 1 the total is \<open>2 ^ 53\<close>, not
  \<open>2 ^ 53 + 1\<close>; for the price 0.1 with quantity 3 the product is rounded up.
\<close>

theorem cartTotal_rounds_counterexample:
  "cartTotal large_items = Num (2 ^ 53) \<and>
   exactTotal large_items = 2 ^ 53 + 1 \<and>
   cartTotal large_items \<noteq> Num (exactTotal large_items) \<and>
   cartTotal fractional_items = Num (5404319552844596 / 2 ^ 54) \<and>
   exactTotal fractional_items = 10808639105689191 / 2 ^ 55 \<and>
   cartTotal fractional_items \<noteq> Num (exactTotal fractional_items)"
proof -
  have 1: "cartTotal large_items = Num (2 ^ 53)"
    using toDouble_large by (simp add: cartTotal_def large_items_def toDouble_exact)
  have 2: "exactTotal large_items = 2 ^ 53 + 1"
    by (simp add: exactTotal_def large_items_def)
  have 3: "cartTotal fractional_items = Num (5404319552844596 / 2 ^ 54)"
    using toDouble_product toDouble_double by (simp add: cartTotal_def fractional_items_def)
  have 4: "exactTotal fractional_items = 10808639105689191 / 2 ^ 55"
    by (simp add: exactTotal_def fractional_items_def)
  from 1 2 3 4 show ?thesis
    by simp
qed

text \<open>
  Claim C3, amended: the cart total is accumulated from 0, item by item in the order of
  the cart, by adding the price of the embedded product times the quantity in double
  arithmetic (the total of no items is 0, and each further item adds its rounded product
  to the total so far, the sum being rounded); when the prices and quantities are
  integers and the magnitudes of the item amounts sum to at most \<open>2 ^ 53\<close> it is the exact
  sum, nothing being rounded. For the items of price 20, quantity 2 and price 15,
  quantity 1 it is 55, and a user with a wallet balance of 100 has 45 after checkout.
\<close>

theorem cartTotal_exact:
  "cartTotal [] = Num 0 \<and>
   cartTotal (items @ [item]) =
     js_add (cartTotal items) (js_mul (price (product' item)) (quantity item)) \<and>
   (integerAmounts items \<and> absTotal items \<le> 2 ^ 53 \<longrightarrow>
      cartTotal items = Num (exactTotal items)) \<and>
   cartTotal example_items = Num 55 \<and>
   fst (checkout example_config (example_db 100 ''Home'') (example_user 100 ''Home'')) =
     Inr (example_cart\<lparr>cartItems := []\<rparr>) \<and>
   fst (snd (checkout example_config (example_db 100 ''Home'') (example_user 100 ''Home''))) =
     example_user 45 ''Home'' \<and>
   users (snd (snd (checkout example_config (example_db 100 ''Home'')
     (example_user 100 ''Home'')))) ''crio-user@gmail.com'' = Some (example_user 45 ''Home'')"
proof -
  have fold: "cartTotal [] = Num 0"
    "cartTotal (items @ [item]) =
       js_add (cartTotal items) (js_mul (price (product' item)) (quantity item))"
    by (simp_all add: cartTotal_def)
  have exact: "integerAmounts items \<and> absTotal items \<le> 2 ^ 53 \<longrightarrow>
      cartTotal items = Num (exactTotal items)"
    using cartTotal_exactTotal [of items] by blast
  have "js_sub (Num 100) (Num 55) = Num 45"
    by (simp add: js_sub_def toDouble_exact)
  then have "checkout example_config (example_db 100 ''Home'') (example_user 100 ''Home'') =
     (Inr (example_cart\<lparr>cartItems := []\<rparr>), example_user 45 ''Home'',
      \<lparr>carts = [example_cart\<lparr>cartItems := []\<rparr>], products = [ball, bat],
       users = [''crio-user@gmail.com'' \<mapsto> example_user 45 ''Home'']\<rparr>)"
    by (simp add: checkout_example) (simp add: example_user_def)
  with fold exact cartTotal_example show ?thesis
    by simp
qed

theorem cartTotal_exact_witness:
  "integerAmounts example_items \<and> absTotal example_items \<le> 2 ^ 53 \<and>
   exactTotal example_items = 55 \<and>
   cartTotal example_items = Num (exactTotal example_items)"
proof -
  have 1: "integerAmounts example_items"
    by (simp add: integerAmounts_def example_defs)
  have 2: "absTotal example_items \<le> 2 ^ 53"
    by (simp add: absTotal_def example_defs)
  have 3: "exactTotal example_items = 55"
    by (simp add: exactTotal_def example_defs)
  from cartTotal_exact [of example_items]
  have "integerAmounts example_items \<and> absTotal example_items \<le> 2 ^ 53 \<longrightarrow>
      cartTotal example_items = Num (exactTotal example_items)"
    by blast
  with 1 2 3 show ?thesis
    by blast
qed

subsection \<open>Adding a product\<close>

text \<open>
  Claim C10: when the product is not in the catalog, \<^verbatim>\<open>addProductToCart\<close> fails with
  \<^verbatim>\<open>Product doesn't exist in database\<close> before a cart is created or changed: the store
  is the one it was given, so a user without a cart still has none and a cart that
  exists keeps its items.
\<close>

theorem addProductToCart_unknown_product:
  assumes "Product_findById d productId = None"
  shows "addProductToCart cfg d u productId qty =
           (Inl (ApiError BAD_REQUEST ''Product doesn't exist in database''), d) \<and>
         Cart_findOne (snd (addProductToCart cfg d u productId qty)) (user.email u) =
           Cart_findOne d (user.email u)"
  using assms by (simp add: addProductToCart_def Let_def)

theorem addProductToCart_unknown_product_witness:
  "Cart_findOne example_db_no_carts (user.email (example_user 100 ''Home'')) = None \<and>
   addProductToCart example_config example_db_no_carts (example_user 100 ''Home'') ''nothing'' (Num 1) =
     (Inl (ApiError BAD_REQUEST ''Product doesn't exist in database''), example_db_no_carts) \<and>
   Cart_findOne (snd (addProductToCart example_config example_db_no_carts
       (example_user 100 ''Home'') ''nothing'' (Num 1))) (user.email (example_user 100 ''Home'')) = None"
proof -
  have h: "Product_findById example_db_no_carts ''nothing'' = None"
    by (simp add: Product_findById_def example_defs)
  have n: "Cart_findOne example_db_no_carts (user.email (example_user 100 ''Home'')) = None"
    by (simp add: Cart_findOne_def example_defs)
  from addProductToCart_unknown_product [OF h, of example_config "example_user 100 ''Home''" "Num 1"] n
  show ?thesis
    by simp
qed

text \<open>
  Claim C7 says that adding a product that is already in the cart fails with
  \<^verbatim>\<open>Product already in cart\<close>. The catalog is checked first: for an item whose product
  has left the catalog the message is \<^verbatim>\<open>Product doesn't exist in database\<close>.
\<close>

theorem addProductToCart_duplicate_message_counterexample:
  "Cart_findOne example_db_empty_catalog (user.email (example_user 100 ''Home'')) =
     Some example_cart \<and>
   isProductInCart (id' ball) example_cart \<and>
   fst (addProductToCart example_config example_db_empty_catalog (example_user 100 ''Home'')
          (id' ball) (Num 1)) =
     Inl (ApiError BAD_REQUEST ''Product doesn't exist in database'') \<and>
   fst (addProductToCart example_config example_db_empty_catalog (example_user 100 ''Home'')
          (id' ball) (Num 1)) \<noteq>
     Inl (ApiError BAD_REQUEST
       ''Product already in cart. Use the cart sidebar to update or remove product from cart'')"
  by (simp add: addProductToCart_def isProductInCart_def Let_def store_defs
      example_defs)

text \<open>
  Claim C7, amended: when the cart already holds an item of the product identifier,
  \<^verbatim>\<open>addProductToCart\<close> fails with status 400 for every quantity and leaves the store
  unchanged; the message is \<^verbatim>\<open>Product already in cart\<close> when the product is in the
  catalog and \<^verbatim>\<open>Product doesn't exist in database\<close> when it is not.
\<close>

theorem addProductToCart_duplicate:
  assumes "Cart_findOne d (user.email u) = Some c"
    and "isProductInCart productId c"
  shows "addProductToCart cfg d u productId qty =
           (Inl (ApiError BAD_REQUEST
              (if Product_findById d productId = None
               then ''Product doesn't exist in database''
               else ''Product already in cart. Use the cart sidebar to update or remove product from cart'')),
            d)"
  using assms by (auto simp: addProductToCart_def Let_def split: option.splits)

theorem addProductToCart_duplicate_witness:
  "addProductToCart example_config (example_db 100 ''Home'') (example_user 100 ''Home'')
     (id' ball) (Num 7) =
     (Inl (ApiError BAD_REQUEST
        ''Product already in cart. Use the cart sidebar to update or remove product from cart''),
      example_db 100 ''Home'')"
proof -
  have 1: "Cart_findOne (example_db 100 ''Home'') (user.email (example_user 100 ''Home'')) =
             Some example_cart"
    by (simp add: Cart_findOne_def example_defs)
  have 2: "isProductInCart (id' ball) example_cart"
    by (simp add: isProductInCart_def example_defs)
  have 3: "Product_findById (example_db 100 ''Home'') (id' ball) \<noteq> None"
    by (simp add: Product_findById_def example_defs)
  from addProductToCart_duplicate [OF 1 2, of example_config "Num 7"] 3 show ?thesis
    by simp
qed

text \<open>
  Claim C8: for a product of the catalog that is not in the user's cart,
  \<^verbatim>\<open>addProductToCart\<close> appends one item at the end of the items (one more than before),
  holding the catalog's product document and the given quantity, to the user's cart or,
  when there is none, to a new cart with no items and the default payment option; it
  returns that cart, which is the one stored for the user.
\<close>

theorem addProductToCart_appends:
  assumes "Product_findById d productId = Some p"
    and "case Cart_findOne d (user.email u) of
           None \<Rightarrow> True | Some c \<Rightarrow> \<not> isProductInCart productId c"
  shows "let c0 = (case Cart_findOne d (user.email u) of
                     Some c \<Rightarrow> c
                   | None \<Rightarrow> \<lparr>cart.email = user.email u, cartItems = [],
                              paymentOption = default_payment_option cfg\<rparr>);
             c1 = c0\<lparr>cartItems := cartItems c0 @ [\<lparr>product' = p, quantity = qty\<rparr>]\<rparr>
         in fst (addProductToCart cfg d u productId qty) = Inr c1 \<and>
            Cart_findOne (snd (addProductToCart cfg d u productId qty)) (user.email u) = Some c1 \<and>
            length (cartItems c1) = length (cartItems c0) + 1"
proof (cases "Cart_findOne d (user.email u)")
  case None
  let ?c0 = "\<lparr>cart.email = user.email u, cartItems = [],
              paymentOption = default_payment_option cfg\<rparr>"
  let ?c1 = "?c0\<lparr>cartItems := cartItems ?c0 @ [\<lparr>product' = p, quantity = qty\<rparr>]\<rparr>"
  have run: "addProductToCart cfg d u productId qty =
               (Inr ?c1, snd (Cart_save (snd (Cart_create d ?c0)) ?c1))"
    using assms(1) None
    by (simp add: addProductToCart_def Let_def isProductInCart_def Cart_create_def Cart_save_def)
  from None have "Cart_findOne d (cart.email ?c0) = None"
    by simp
  from Cart_findOne_create [OF this]
  have "Cart_findOne (snd (Cart_create d ?c0)) (cart.email ?c1) = Some ?c0"
    by simp
  from Cart_findOne_save_same [OF this]
  have "Cart_findOne (snd (Cart_save (snd (Cart_create d ?c0)) ?c1)) (user.email u) = Some ?c1"
    by simp
  with run None show ?thesis
    by (simp add: Let_def)
next
  case (Some c)
  let ?c1 = "c\<lparr>cartItems := cartItems c @ [\<lparr>product' = p, quantity = qty\<rparr>]\<rparr>"
  from assms(2) Some have fresh: "\<not> isProductInCart productId c"
    by simp
  have run: "addProductToCart cfg d u productId qty = (Inr ?c1, snd (Cart_save d ?c1))"
    using assms(1) Some fresh
    by (simp add: addProductToCart_def Let_def Cart_save_def)
  have key: "cart.email ?c1 = user.email u"
    using Cart_findOne_email [OF Some] by simp
  with Some have "Cart_findOne d (cart.email ?c1) = Some c"
    by simp
  from Cart_findOne_save_same [OF this] key
  have "Cart_findOne (snd (Cart_save d ?c1)) (user.email u) = Some ?c1"
    by simp
  with run Some show ?thesis
    by (simp add: Let_def)
qed

theorem addProductToCart_appends_witness:
  "fst (addProductToCart example_config example_db_no_carts (example_user 100 ''Home'')
          (id' bat) (Num 3)) =
     Inr \<lparr>cart.email = ''crio-user@gmail.com'',
          cartItems = [\<lparr>product' = bat, quantity = Num 3\<rparr>],
          paymentOption = ''PAYMENT_OPTION_DEFAULT''\<rparr> \<and>
   Cart_findOne (snd (addProductToCart example_config example_db_no_carts
       (example_user 100 ''Home'') (id' bat) (Num 3))) ''crio-user@gmail.com'' =
     Some \<lparr>cart.email = ''crio-user@gmail.com'',
           cartItems = [\<lparr>product' = bat, quantity = Num 3\<rparr>],
           paymentOption = ''PAYMENT_OPTION_DEFAULT''\<rparr>"
proof -
  have 1: "Product_findById example_db_no_carts (id' bat) = Some bat"
    by (simp add: Product_findById_def example_defs)
  have n: "Cart_findOne example_db_no_carts (user.email (example_user 100 ''Home'')) = None"
    by (simp add: Cart_findOne_def example_defs)
  then have 2: "case Cart_findOne example_db_no_carts (user.email (example_user 100 ''Home'')) of
                  None \<Rightarrow> True | Some c \<Rightarrow> \<not> isProductInCart (id' bat) c"
    by simp
  from addProductToCart_appends [OF 1 2, of example_config "Num 3"] n show ?thesis
    by (simp add: Let_def example_config_def example_user_def)
qed


subsection \<open>Deleting a product\<close>

text \<open>
  Claim C9: on a cart that holds the product (its items having distinct product
  identifiers, as the data model requires), \<^verbatim>\<open>deleteProductFromCart\<close> removes the one
  item of that product, keeps the others in their order, stores and returns the cart; a
  second call with the same identifier fails with \<^verbatim>\<open>Product not in cart\<close>.
\<close>

theorem deleteProductFromCart_twice:
  assumes "Cart_findOne d (user.email u) = Some c"
    and "isProductInCart productId c"
    and "distinct (map (\<lambda>item. id' (product' item)) (cartItems c))"
  shows "\<exists>i<length (cartItems c).
           id' (product' (cartItems c ! i)) = productId \<and>
           fst (deleteProductFromCart d u productId) =
             Inr (c\<lparr>cartItems := take i (cartItems c) @ drop (Suc i) (cartItems c)\<rparr>) \<and>
           Cart_findOne (snd (deleteProductFromCart d u productId)) (user.email u) =
             Some (c\<lparr>cartItems := take i (cartItems c) @ drop (Suc i) (cartItems c)\<rparr>) \<and>
           deleteProductFromCart (snd (deleteProductFromCart d u productId)) u productId =
             (Inl (ApiError BAD_REQUEST ''Product not in cart''),
              snd (deleteProductFromCart d u productId))"
proof -
  let ?P = "\<lambda>item. id' (product' item) = productId"
  from assms(2) obtain i where i: "findIndex ?P (cartItems c) = Some i"
    by (auto simp: isProductInCart_findIndex)
  let ?c1 = "c\<lparr>cartItems := splice1 i (cartItems c)\<rparr>"
  let ?d1 = "snd (Cart_save d ?c1)"
  have run: "deleteProductFromCart d u productId = (Inr ?c1, ?d1)"
    using assms(1) i by (simp add: deleteProductFromCart_def Let_def)
  have key: "cart.email ?c1 = user.email u"
    using Cart_findOne_email [OF assms(1)] by simp
  with assms(1) have "Cart_findOne d (cart.email ?c1) = Some c"
    by simp
  from Cart_findOne_save_same [OF this] key
  have stored: "Cart_findOne ?d1 (user.email u) = Some ?c1"
    by simp
  have "splice1 i (cartItems c) = filter (\<lambda>item. id' (product' item) \<noteq> productId) (cartItems c)"
    using filter_distinct_splice1 [OF assms(3) i] by simp
  then have "findIndex ?P (cartItems ?c1) = None"
    by (simp add: findIndex_filter_None)
  with stored have again: "deleteProductFromCart ?d1 u productId =
      (Inl (ApiError BAD_REQUEST ''Product not in cart''), ?d1)"
    by (simp add: deleteProductFromCart_def)
  from findIndex_Some [OF i] have "i < length (cartItems c)" and "?P (cartItems c ! i)"
    by simp_all
  with run stored again show ?thesis
    by (auto simp: splice1_def)
qed

theorem deleteProductFromCart_twice_witness:
  "fst (deleteProductFromCart (example_db 100 ''Home'') (example_user 100 ''Home'') (id' ball)) =
     Inr (example_cart\<lparr>cartItems := [\<lparr>product' = bat, quantity = Num 1\<rparr>]\<rparr>) \<and>
   fst (deleteProductFromCart
          (snd (deleteProductFromCart (example_db 100 ''Home'') (example_user 100 ''Home'')
             (id' ball)))
          (example_user 100 ''Home'') (id' ball)) =
     Inl (ApiError BAD_REQUEST ''Product not in cart'')"
proof -
  have 1: "Cart_findOne (example_db 100 ''Home'') (user.email (example_user 100 ''Home'')) =
             Some example_cart"
    by (simp add: Cart_findOne_def example_defs)
  have 2: "isProductInCart (id' ball) example_cart"
    by (simp add: isProductInCart_def example_defs)
  have 3: "distinct (map (\<lambda>item. id' (product' item)) (cartItems example_cart))"
    by (simp add: example_defs)
  from deleteProductFromCart_twice [OF 1 2 3]
  obtain i where i: "i < length (cartItems example_cart)"
      "id' (product' (cartItems example_cart ! i)) = id' ball"
    and r: "fst (deleteProductFromCart (example_db 100 ''Home'') (example_user 100 ''Home'')
                (id' ball)) =
            Inr (example_cart\<lparr>cartItems :=
                   take i (cartItems example_cart) @ drop (Suc i) (cartItems example_cart)\<rparr>)"
    and a: "deleteProductFromCart
              (snd (deleteProductFromCart (example_db 100 ''Home'') (example_user 100 ''Home'')
                 (id' ball)))
              (example_user 100 ''Home'') (id' ball) =
            (Inl (ApiError BAD_REQUEST ''Product not in cart''),
             snd (deleteProductFromCart (example_db 100 ''Home'') (example_user 100 ''Home'')
                 (id' ball)))"
    by blast
  from i have "i = 0"
    by (cases i) (simp_all add: example_defs)
  with r a show ?thesis
    by (simp add: example_defs)
qed


subsection \<open>Updating a quantity\<close>

text \<open>
  Claim C6 says that for every cart holding an item of the product,
  \<^verbatim>\<open>updateProductInCart\<close> sets the quantity or removes the item, the number of items
  going down by 1. The catalog is checked before the cart's items: for an item whose
  product has left the catalog the call fails with \<^verbatim>\<open>Product doesn't exist in database\<close>,
  for a positive quantity and for 0. And the removal filters the items: in a cart with
  two items of the product both are removed.
\<close>

theorem updateProductInCart_stale_product_counterexample:
  "Cart_findOne example_db_empty_catalog (user.email (example_user 100 ''Home'')) =
     Some example_cart \<and>
   isProductInCart (id' ball) example_cart \<and>
   updateProductInCart example_db_empty_catalog (example_user 100 ''Home'') (id' ball) (Num 5) =
     (Inl (ApiError BAD_REQUEST ''Product doesn't exist in database''), example_db_empty_catalog) \<and>
   updateProductInCart example_db_empty_catalog (example_user 100 ''Home'') (id' ball) (Num 0) =
     (Inl (ApiError BAD_REQUEST ''Product doesn't exist in database''), example_db_empty_catalog) \<and>
   Cart_findOne example_db_duplicate (user.email (example_user 100 ''Home'')) =
     Some (example_cart\<lparr>cartItems :=
       [\<lparr>product' = ball, quantity = Num 2\<rparr>, \<lparr>product' = ball, quantity = Num 1\<rparr>]\<rparr>) \<and>
   fst (updateProductInCart example_db_duplicate (example_user 100 ''Home'') (id' ball) (Num 0)) =
     Inr None \<and>
   Cart_findOne
     (snd (updateProductInCart example_db_duplicate (example_user 100 ''Home'') (id' ball) (Num 0)))
     (user.email (example_user 100 ''Home'')) =
     Some (example_cart\<lparr>cartItems := []\<rparr>)"
  by (simp add: updateProductInCart_def isProductInCart_def Let_def store_defs example_defs)

text \<open>
  Claim C6, amended: for a cart that holds an item of the product, let the matching item
  be the first one of that product identifier. When the product is not in the catalog,
  \<^verbatim>\<open>updateProductInCart\<close> fails with \<^verbatim>\<open>Product doesn't exist in database\<close> and changes
  nothing. Otherwise, with a quantity above 0 it sets the quantity of the matching item,
  leaves the number of items and every other item as they were, and returns the cart;
  with any other quantity it removes every item of that product identifier, keeps the
  others in their order, and returns \<^verbatim>\<open>null\<close>: where the product identifiers of the cart
  are distinct this removes the matching item alone, one item less. In both cases the
  cart is stored.
\<close>

theorem updateProductInCart_fork:
  assumes "Cart_findOne d (user.email u) = Some c"
    and "isProductInCart productId c"
  shows "\<exists>i<length (cartItems c).
           id' (product' (cartItems c ! i)) = productId \<and>
           (\<forall>j<i. id' (product' (cartItems c ! j)) \<noteq> productId) \<and>
           (if Product_findById d productId = None
            then
              updateProductInCart d u productId qty =
                (Inl (ApiError BAD_REQUEST ''Product doesn't exist in database''), d)
            else if js_gt qty (Num 0)
            then
              fst (updateProductInCart d u productId qty) =
                Inr (Some (c\<lparr>cartItems :=
                             (cartItems c)[i := (cartItems c ! i)\<lparr>quantity := qty\<rparr>]\<rparr>)) \<and>
              Cart_findOne (snd (updateProductInCart d u productId qty)) (user.email u) =
                Some (c\<lparr>cartItems := (cartItems c)[i := (cartItems c ! i)\<lparr>quantity := qty\<rparr>]\<rparr>)
            else
              fst (updateProductInCart d u productId qty) = Inr None \<and>
              Cart_findOne (snd (updateProductInCart d u productId qty)) (user.email u) =
                Some (c\<lparr>cartItems :=
                        filter (\<lambda>item. id' (product' item) \<noteq> productId) (cartItems c)\<rparr>) \<and>
              (distinct (map (\<lambda>item. id' (product' item)) (cartItems c)) \<longrightarrow>
                 filter (\<lambda>item. id' (product' item) \<noteq> productId) (cartItems c) =
                   take i (cartItems c) @ drop (Suc i) (cartItems c)))"
proof -
  let ?P = "\<lambda>item. id' (product' item) = productId"
  from assms(2) obtain i where i: "findIndex ?P (cartItems c) = Some i"
    by (auto simp: isProductInCart_findIndex)
  from findIndex_Some [OF i]
  have bound: "i < length (cartItems c)" and hit: "?P (cartItems c ! i)"
    and first: "\<forall>j<i. \<not> ?P (cartItems c ! j)"
    by simp_all
  have key: "cart.email c = user.email u"
    using Cart_findOne_email [OF assms(1)] .
  consider (stale) "Product_findById d productId = None"
    | (set) p where "Product_findById d productId = Some p" "js_gt qty (Num 0)"
    | (remove) p where "Product_findById d productId = Some p" "\<not> js_gt qty (Num 0)"
    by (cases "Product_findById d productId") auto
  then show ?thesis
  proof cases
    case stale
    with assms(1) have "updateProductInCart d u productId qty =
        (Inl (ApiError BAD_REQUEST ''Product doesn't exist in database''), d)"
      by (simp add: updateProductInCart_def)
    with stale bound hit first show ?thesis
      by auto
  next
    case set
    let ?c1 = "c\<lparr>cartItems := (cartItems c)[i := (cartItems c ! i)\<lparr>quantity := qty\<rparr>]\<rparr>"
    have run: "updateProductInCart d u productId qty = (Inr (Some ?c1), snd (Cart_save d ?c1))"
      using assms(1) i set by (simp add: updateProductInCart_def Let_def)
    from assms(1) key have "Cart_findOne d (cart.email ?c1) = Some c"
      by simp
    from Cart_findOne_save_same [OF this] key
    have "Cart_findOne (snd (Cart_save d ?c1)) (user.email u) = Some ?c1"
      by simp
    with run set bound hit first show ?thesis
      by auto
  next
    case remove
    let ?c1 = "c\<lparr>cartItems := filter (\<lambda>item. id' (product' item) \<noteq> productId) (cartItems c)\<rparr>"
    have run: "updateProductInCart d u productId qty = (Inr None, snd (Cart_save d ?c1))"
      using assms(1) i remove by (simp add: updateProductInCart_def Let_def)
    from assms(1) key have "Cart_findOne d (cart.email ?c1) = Some c"
      by simp
    from Cart_findOne_save_same [OF this] key
    have stored: "Cart_findOne (snd (Cart_save d ?c1)) (user.email u) = Some ?c1"
      by simp
    have one: "filter (\<lambda>item. id' (product' item) \<noteq> productId) (cartItems c) =
            take i (cartItems c) @ drop (Suc i) (cartItems c)"
      if "distinct (map (\<lambda>item. id' (product' item)) (cartItems c))"
      using filter_distinct_splice1 [OF that i] by (simp add: splice1_def)
    from run stored remove bound hit first one show ?thesis
      by auto
  qed
qed

theorem updateProductInCart_fork_witness:
  "fst (updateProductInCart (example_db 100 ''Home'') (example_user 100 ''Home'') (id' ball) (Num 5)) =
     Inr (Some (example_cart\<lparr>cartItems :=
        [\<lparr>product' = ball, quantity = Num 5\<rparr>, \<lparr>product' = bat, quantity = Num 1\<rparr>]\<rparr>)) \<and>
   fst (updateProductInCart (example_db 100 ''Home'') (example_user 100 ''Home'') (id' ball) (Num 0)) =
     Inr None \<and>
   Cart_findOne
     (snd (updateProductInCart (example_db 100 ''Home'') (example_user 100 ''Home'') (id' ball) (Num 0)))
     ''crio-user@gmail.com'' =
     Some (example_cart\<lparr>cartItems := [\<lparr>product' = bat, quantity = Num 1\<rparr>]\<rparr>) \<and>
   updateProductInCart example_db_empty_catalog (example_user 100 ''Home'') (id' ball) (Num (- 1)) =
     (Inl (ApiError BAD_REQUEST ''Product doesn't exist in database''), example_db_empty_catalog)"
proof -
  let ?d = "example_db 100 ''Home''" and ?u = "example_user 100 ''Home''"
  have 1: "Cart_findOne ?d (user.email ?u) = Some example_cart"
    by (simp add: Cart_findOne_def example_defs)
  have 2: "Product_findById ?d (id' ball) = Some ball"
    by (simp add: Product_findById_def example_defs)
  have 3: "isProductInCart (id' ball) example_cart"
    by (simp add: isProductInCart_def example_defs)
  have 4: "distinct (map (\<lambda>item. id' (product' item)) (cartItems example_cart))"
    by (simp add: example_defs)
  have 5: "Cart_findOne example_db_empty_catalog (user.email ?u) = Some example_cart"
    by (simp add: Cart_findOne_def example_defs)
  have 6: "Product_findById example_db_empty_catalog (id' ball) = None"
    by (simp add: Product_findById_def example_defs)
  have first: "i = 0"
    if "i < length (cartItems example_cart)"
      and "id' (product' (cartItems example_cart ! i)) = id' ball" for i
    using that by (cases i) (simp_all add: example_defs)
  from updateProductInCart_fork [OF 1 3, of "Num 5"] 2
  obtain i where "i < length (cartItems example_cart)"
      "id' (product' (cartItems example_cart ! i)) = id' ball"
    and "fst (updateProductInCart ?d ?u (id' ball) (Num 5)) =
      Inr (Some (example_cart\<lparr>cartItems :=
        (cartItems example_cart)[i := (cartItems example_cart ! i)\<lparr>quantity := Num 5\<rparr>]\<rparr>))"
    by auto
  with first [of i]
  have a: "fst (updateProductInCart ?d ?u (id' ball) (Num 5)) =
      Inr (Some (example_cart\<lparr>cartItems :=
        (cartItems example_cart)[0 := (cartItems example_cart ! 0)\<lparr>quantity := Num 5\<rparr>]\<rparr>))"
    by simp
  from updateProductInCart_fork [OF 1 3, of "Num 0"] 2 4
  obtain j where "j < length (cartItems example_cart)"
      "id' (product' (cartItems example_cart ! j)) = id' ball"
    and "fst (updateProductInCart ?d ?u (id' ball) (Num 0)) = Inr None"
    and "Cart_findOne (snd (updateProductInCart ?d ?u (id' ball) (Num 0))) (user.email ?u) =
        Some (example_cart\<lparr>cartItems :=
          take j (cartItems example_cart) @ drop (Suc j) (cartItems example_cart)\<rparr>)"
    by auto
  with first [of j]
  have b: "fst (updateProductInCart ?d ?u (id' ball) (Num 0)) = Inr None \<and>
      Cart_findOne (snd (updateProductInCart ?d ?u (id' ball) (Num 0))) (user.email ?u) =
        Some (example_cart\<lparr>cartItems :=
          take 0 (cartItems example_cart) @ drop (Suc 0) (cartItems example_cart)\<rparr>)"
    by simp
  from updateProductInCart_fork [OF 5 3, of "Num (- 1)"] 6
  have c: "updateProductInCart example_db_empty_catalog ?u (id' ball) (Num (- 1)) =
      (Inl (ApiError BAD_REQUEST ''Product doesn't exist in database''), example_db_empty_catalog)"
    by auto
  from a b c show ?thesis
    by (simp add: example_defs)
qed

subsection \<open>Positive quantities\<close>

lemma Cart_findOne_positive:
  "quantitiesPositive d \<Longrightarrow> Cart_findOne d e = Some c \<Longrightarrow>
   list_all (\<lambda>item. js_gt (quantity item) (Num 0)) (cartItems c)"
  by (auto simp: quantitiesPositive_def Cart_findOne_def find_Some_iff list_all_iff)

lemma Cart_save_positive:
  "quantitiesPositive d \<Longrightarrow> list_all (\<lambda>item. js_gt (quantity item) (Num 0)) (cartItems c) \<Longrightarrow>
   quantitiesPositive (snd (Cart_save d c))"
  by (auto simp: quantitiesPositive_def Cart_save_def list_all_iff)

lemma Cart_create_positive:
  "quantitiesPositive d \<Longrightarrow> list_all (\<lambda>item. js_gt (quantity item) (Num 0)) (cartItems c) \<Longrightarrow>
   quantitiesPositive (snd (Cart_create d c))"
  by (auto simp: quantitiesPositive_def Cart_create_def list_all_iff)

lemma User_save_positive: "quantitiesPositive (User_save d u) = quantitiesPositive d"
  by (simp add: quantitiesPositive_def User_save_def)

lemma addProductToCart_positive:
  assumes "quantitiesPositive d" and "js_gt qty (Num 0)"
  shows "quantitiesPositive (snd (addProductToCart cfg d u productId qty))"
proof (cases "Product_findById d productId")
  case None
  with assms(1) show ?thesis
    by (simp add: addProductToCart_def Let_def)
next
  case (Some p)
  show ?thesis
  proof (cases "Cart_findOne d (user.email u)")
    case None
    let ?c0 = "\<lparr>cart.email = user.email u, cartItems = [],
                paymentOption = default_payment_option cfg\<rparr>"
    let ?c1 = "?c0\<lparr>cartItems := cartItems ?c0 @ [\<lparr>product' = p, quantity = qty\<rparr>]\<rparr>"
    have "snd (addProductToCart cfg d u productId qty) =
            snd (Cart_save (snd (Cart_create d ?c0)) ?c1)"
      using Some None
      by (simp add: addProductToCart_def Let_def isProductInCart_def Cart_create_def
          Cart_save_def)
    moreover have "quantitiesPositive (snd (Cart_create d ?c0))"
      using assms(1) by (simp add: Cart_create_positive)
    ultimately show ?thesis
      using assms(2) by (simp add: Cart_save_positive)
  next
    case c: (Some c)
    from Cart_findOne_positive [OF assms(1) c] assms
    have "quantitiesPositive
            (snd (Cart_save d (c\<lparr>cartItems := cartItems c @ [\<lparr>product' = p, quantity = qty\<rparr>]\<rparr>)))"
      by (simp add: Cart_save_positive)
    with assms(1) Some c show ?thesis
      by (simp add: addProductToCart_def Let_def Cart_save_def)
  qed
qed

lemma updateProductInCart_positive:
  assumes "quantitiesPositive d"
  shows "quantitiesPositive (snd (updateProductInCart d u productId qty))"
proof (cases "Cart_findOne d (user.email u)")
  case None
  with assms show ?thesis
    by (simp add: updateProductInCart_def)
next
  case (Some c)
  note pos = Cart_findOne_positive [OF assms Some]
  have upd: "list_all (\<lambda>item. js_gt (quantity item) (Num 0))
               ((cartItems c)[i := (cartItems c ! i)\<lparr>quantity := qty\<rparr>])"
    if "js_gt qty (Num 0)" for i
    using pos that by (auto simp: list_all_iff dest!: set_update_subset_insert [THEN subsetD])
  have flt: "list_all (\<lambda>item. js_gt (quantity item) (Num 0))
               (filter (\<lambda>item. id' (product' item) \<noteq> productId) (cartItems c))"
    using pos by (simp add: list_all_iff)
  from assms Some upd flt show ?thesis
    by (simp add: updateProductInCart_def Let_def Cart_save_positive
        split: option.split)
qed

lemma deleteProductFromCart_positive:
  assumes "quantitiesPositive d"
  shows "quantitiesPositive (snd (deleteProductFromCart d u productId))"
proof (cases "Cart_findOne d (user.email u)")
  case None
  with assms show ?thesis
    by (simp add: deleteProductFromCart_def)
next
  case (Some c)
  note pos = Cart_findOne_positive [OF assms Some]
  have "list_all (\<lambda>item. js_gt (quantity item) (Num 0)) (splice1 i (cartItems c))" for i
    using pos by (auto simp: list_all_iff splice1_def dest: in_set_takeD in_set_dropD)
  with assms Some show ?thesis
    by (simp add: deleteProductFromCart_def Let_def Cart_save_positive split: option.split)
qed

lemma checkout_positive:
  assumes "quantitiesPositive d"
  shows "quantitiesPositive (snd (snd (checkout cfg d u)))"
  using assms
  by (simp add: checkout_def Let_def Cart_save_positive User_save_positive
      split: option.split)

lemma serve_positive:
  "quantitiesPositive d \<Longrightarrow> addsPositive r \<Longrightarrow> quantitiesPositive (serve cfg d r)"
  by (cases r)
    (simp_all add: addProductToCart_positive updateProductInCart_positive
      deleteProductFromCart_positive checkout_positive)

text \<open>
  Claim C4 says that no cart reachable through the operations holds an item of quantity
  0 or below. \<^verbatim>\<open>addProductToCart\<close> stores the quantity it is given: adding with
  quantity 0 to a store without carts leaves a cart with an item of quantity 0.
\<close>

theorem addProductToCart_zero_quantity_counterexample:
  "quantitiesPositive example_db_no_carts \<and>
   Cart_findOne
     (serveAll example_config example_db_no_carts
        [AddProductToCart (example_user 100 ''Home'') (id' ball) (Num 0)])
     ''crio-user@gmail.com'' =
     Some \<lparr>cart.email = ''crio-user@gmail.com'',
           cartItems = [\<lparr>product' = ball, quantity = Num 0\<rparr>],
           paymentOption = ''PAYMENT_OPTION_DEFAULT''\<rparr> \<and>
   \<not> quantitiesPositive
       (serveAll example_config example_db_no_carts
          [AddProductToCart (example_user 100 ''Home'') (id' ball) (Num 0)])"
  by (simp add: serveAll_def quantitiesPositive_def addProductToCart_def isProductInCart_def
      Let_def store_defs example_defs)

text \<open>
  Claim C4, amended: from a store whose carts hold positive quantities only, every
  sequence of calls of the four operations in which each \<^verbatim>\<open>addProductToCart\<close> is given
  a quantity above 0 leads to a store whose carts hold positive quantities only;
  \<^verbatim>\<open>updateProductInCart\<close> with a quantity of 0 or below removes the item and stores no
  such quantity.
\<close>

theorem quantities_stay_positive:
  assumes "quantitiesPositive d"
    and "list_all addsPositive rs"
  shows "quantitiesPositive (serveAll cfg d rs)"
  using assms unfolding serveAll_def
proof (induction rs arbitrary: d)
  case Nil
  then show ?case by simp
next
  case (Cons r rs)
  from Cons.prems have "quantitiesPositive (serve cfg d r)"
    by (simp add: serve_positive)
  with Cons.prems Cons.IH show ?case
    by simp
qed

theorem quantities_stay_positive_witness:
  "quantitiesPositive
     (serveAll example_config example_db_no_carts
        [AddProductToCart (example_user 100 ''Home'') (id' ball) (Num 2),
         AddProductToCart (example_user 100 ''Home'') (id' bat) (Num 1),
         UpdateProductInCart (example_user 100 ''Home'') (id' ball) (Num 0),
         DeleteProductFromCart (example_user 100 ''Home'') (id' bat),
         Checkout (example_user 100 ''Home'')])"
proof -
  have 1: "quantitiesPositive example_db_no_carts"
    by (simp add: quantitiesPositive_def example_defs)
  have 2: "list_all addsPositive
     [AddProductToCart (example_user 100 ''Home'') (id' ball) (Num 2),
      AddProductToCart (example_user 100 ''Home'') (id' bat) (Num 1),
      UpdateProductInCart (example_user 100 ''Home'') (id' ball) (Num 0),
      DeleteProductFromCart (example_user 100 ''Home'') (id' bat),
      Checkout (example_user 100 ''Home'')]"
    by simp
  from quantities_stay_positive [OF 1 2] show ?thesis .
qed


subsection \<open>Distinct products\<close>

text \<open>
  The operations keep the product identifiers of every cart distinct, so the carts they
  produce satisfy the hypothesis of the theorems on deletion and update.
\<close>

lemma Cart_findOne_distinct:
  "productsDistinct d \<Longrightarrow> Cart_findOne d e = Some c \<Longrightarrow>
   distinct (map (\<lambda>item. id' (product' item)) (cartItems c))"
  by (auto simp: productsDistinct_def Cart_findOne_def find_Some_iff list_all_iff)

lemma Cart_save_distinct:
  "productsDistinct d \<Longrightarrow> distinct (map (\<lambda>item. id' (product' item)) (cartItems c)) \<Longrightarrow>
   productsDistinct (snd (Cart_save d c))"
  by (auto simp: productsDistinct_def Cart_save_def list_all_iff)

lemma Cart_create_distinct:
  "productsDistinct d \<Longrightarrow> distinct (map (\<lambda>item. id' (product' item)) (cartItems c)) \<Longrightarrow>
   productsDistinct (snd (Cart_create d c))"
  by (auto simp: productsDistinct_def Cart_create_def list_all_iff)

lemma User_save_distinct: "productsDistinct (User_save d u) = productsDistinct d"
  by (simp add: productsDistinct_def User_save_def)

lemma addProductToCart_distinct:
  assumes "productsDistinct d"
  shows "productsDistinct (snd (addProductToCart cfg d u productId qty))"
proof (cases "Product_findById d productId")
  case None
  with assms show ?thesis
    by (simp add: addProductToCart_def Let_def)
next
  case (Some p)
  note pid = Product_findById_id [OF Some]
  show ?thesis
  proof (cases "Cart_findOne d (user.email u)")
    case None
    let ?c0 = "\<lparr>cart.email = user.email u, cartItems = [],
                paymentOption = default_payment_option cfg\<rparr>"
    let ?c1 = "?c0\<lparr>cartItems := cartItems ?c0 @ [\<lparr>product' = p, quantity = qty\<rparr>]\<rparr>"
    have "snd (addProductToCart cfg d u productId qty) =
            snd (Cart_save (snd (Cart_create d ?c0)) ?c1)"
      using Some None
      by (simp add: addProductToCart_def Let_def isProductInCart_def Cart_create_def
          Cart_save_def)
    moreover have "productsDistinct (snd (Cart_create d ?c0))"
      using assms by (simp add: Cart_create_distinct)
    ultimately show ?thesis
      by (simp add: Cart_save_distinct)
  next
    case c: (Some c)
    show ?thesis
    proof (cases "isProductInCart productId c")
      case True
      with assms Some c show ?thesis
        by (simp add: addProductToCart_def Let_def)
    next
      case False
      then have "productId \<notin> set (map (\<lambda>item. id' (product' item)) (cartItems c))"
        by (auto simp: isProductInCart_def list_ex_iff)
      with Cart_findOne_distinct [OF assms c] pid
      have "distinct (map (\<lambda>item. id' (product' item))
              (cartItems c @ [\<lparr>product' = p, quantity = qty\<rparr>]))"
        by simp
      then have "productsDistinct
          (snd (Cart_save d (c\<lparr>cartItems := cartItems c @ [\<lparr>product' = p, quantity = qty\<rparr>]\<rparr>)))"
        using assms by (simp add: Cart_save_distinct)
      with Some c False show ?thesis
        by (simp add: addProductToCart_def Let_def Cart_save_def)
    qed
  qed
qed

lemma updateProductInCart_distinct:
  assumes "productsDistinct d"
  shows "productsDistinct (snd (updateProductInCart d u productId qty))"
proof (cases "Cart_findOne d (user.email u)")
  case None
  with assms show ?thesis
    by (simp add: updateProductInCart_def)
next
  case (Some c)
  note dist = Cart_findOne_distinct [OF assms Some]
  have upd: "distinct (map (\<lambda>item. id' (product' item))
               ((cartItems c)[i := (cartItems c ! i)\<lparr>quantity := qty\<rparr>]))" for i
    using dist by (simp add: map_update_same_key)
  have flt: "distinct (map (\<lambda>item. id' (product' item))
               (filter (\<lambda>item. id' (product' item) \<noteq> productId) (cartItems c)))"
    using dist by (rule distinct_map_filter)
  from assms Some upd flt show ?thesis
    by (simp add: updateProductInCart_def Let_def Cart_save_distinct split: option.split)
qed

lemma deleteProductFromCart_distinct:
  assumes "productsDistinct d"
  shows "productsDistinct (snd (deleteProductFromCart d u productId))"
proof (cases "Cart_findOne d (user.email u)")
  case None
  with assms show ?thesis
    by (simp add: deleteProductFromCart_def)
next
  case (Some c)
  from Cart_findOne_distinct [OF assms Some]
  have "distinct (map (\<lambda>item. id' (product' item)) (splice1 i (cartItems c)))" for i
    by (simp add: map_splice1 distinct_splice1)
  with assms Some show ?thesis
    by (simp add: deleteProductFromCart_def Let_def Cart_save_distinct split: option.split)
qed

lemma checkout_distinct:
  assumes "productsDistinct d"
  shows "productsDistinct (snd (snd (checkout cfg d u)))"
  using assms
  by (simp add: checkout_def Let_def Cart_save_distinct User_save_distinct
      split: option.split)

lemma serve_distinct: "productsDistinct d \<Longrightarrow> productsDistinct (serve cfg d r)"
  by (cases r)
    (simp_all add: addProductToCart_distinct updateProductInCart_distinct
      deleteProductFromCart_distinct checkout_distinct)

lemma serveAll_distinct: "productsDistinct d \<Longrightarrow> productsDistinct (serveAll cfg d rs)"
  unfolding serveAll_def by (induction rs arbitrary: d) (simp_all add: serve_distinct)

end
